theory Spec2Isabelle
  imports Main
begin

section \<open>Python strings and lists\<close>

text \<open>
  A Python \<open>str\<close> is modelled as a \<^typ>\<open>string\<close>: a list of characters with code
  points below 256. In that range the characters that \<open>str.strip()\<close> removes
  (\<open>str.isspace\<close>) are U+0009 to U+000D, U+001C to U+0020, U+0085 and U+00A0, and
  the characters the regular expression class \<open>\d\<close> accepts are \<open>0\<close> to \<open>9\<close>.
\<close>

definition is_space :: "char \<Rightarrow> bool" where
  "is_space c =
     (let n = (of_char c :: nat)
      in (9 \<le> n \<and> n \<le> 13) \<or> (28 \<le> n \<and> n \<le> 32) \<or> n = 133 \<or> n = 160)"

definition is_digit :: "char \<Rightarrow> bool" where
  "is_digit c = (let n = (of_char c :: nat) in 48 \<le> n \<and> n \<le> 57)"

text \<open>\<open>s.strip()\<close>: leading and trailing whitespace removed.\<close>

definition strip :: "string \<Rightarrow> string" where
  "strip s = rev (dropWhile is_space (rev (dropWhile is_space s)))"

text \<open>\<open>s.split(d)\<close> for a one-character separator: the empty string gives \<open>['']\<close>.\<close>

fun split_on :: "char \<Rightarrow> string \<Rightarrow> string list" where
  "split_on d [] = [[]]"
| "split_on d (c # cs) =
     (if c = d then [] # split_on d cs
      else (case split_on d cs of
              [] \<Rightarrow> [[c]]
            | l # ls \<Rightarrow> (c # l) # ls))"

definition newline :: char where
  "newline = CHR 0x0A"

text \<open>\<open>d.join(parts)\<close> for a one-character separator.\<close>

fun join :: "char \<Rightarrow> string list \<Rightarrow> string" where
  "join d [] = []"
| "join d [p] = p"
| "join d (p # q # ps) = p @ d # join d (q # ps)"

text \<open>\<open>xs[:n]\<close>: a negative bound counts from the end of the list.\<close>

definition slice_to :: "'a list \<Rightarrow> int \<Rightarrow> 'a list" where
  "slice_to xs n =
     (if 0 \<le> n then take (nat n) xs else take (nat (int (length xs) + n)) xs)"

text \<open>\<open>[x] * n\<close>: the empty list when \<open>n\<close> is not positive.\<close>

definition list_times :: "'a \<Rightarrow> int \<Rightarrow> 'a list" where
  "list_times x n = replicate (nat n) x"

text \<open>\<open>sub in s\<close> on strings: \<open>sub\<close> occurs in \<open>s\<close> as a contiguous run.\<close>

definition starts_with :: "string \<Rightarrow> string \<Rightarrow> bool" where
  "starts_with s p = (take (length p) s = p)"

fun str_contains :: "string \<Rightarrow> string \<Rightarrow> bool" where
  "str_contains [] sub = (sub = [])"
| "str_contains (c # cs) sub = (starts_with (c # cs) sub \<or> str_contains cs sub)"

text \<open>\<open>str(n)\<close> on integers: decimal digits, with a minus sign for a negative number.\<close>

definition digit_char :: "nat \<Rightarrow> char" where
  "digit_char d = ''0123456789'' ! d"

fun str_nat :: "nat \<Rightarrow> string" where
  "str_nat n = (if n < 10 then [digit_char n] else str_nat (n div 10) @ [digit_char (n mod 10)])"

declare str_nat.simps [simp del]

definition str_int :: "int \<Rightarrow> string" where
  "str_int i = (if i < 0 then ''-'' @ str_nat (nat (- i)) else str_nat (nat i))"

section \<open>The model's replies\<close>

text \<open>
  The language model is outside the program. A call of \<open>model.generate_content\<close>
  either raises (the exception's text is kept for the error message), or returns a
  response without parts (blocked by the content policy), or returns a text.
\<close>

datatype llm_response = Raised string | Blocked | Text string

text \<open>
  What a run shows or does besides changing the session: \<open>st.error\<close> and
  \<open>st.warning\<close> messages, calls of the model (with the prompt sent), an exception
  that leaves the script, and \<open>st.rerun()\<close>. Other rendering (\<open>st.markdown\<close>,
  \<open>st.info\<close>, \<open>st.success\<close>, the progress bar) is left out.
\<close>

datatype gateway = Questions | Evaluation | Report

datatype py_error = ValueError | OverflowError

datatype effect =
    Error string
  | Warning string
  | Call gateway string
  | Uncaught py_error
  | Rerun

section \<open>\<open>generate_llm_questions_gemini\<close>\<close>

definition blocked_questions :: string where
  "blocked_questions = ''Could not generate questions due to a block.''"

definition failed_questions :: string where
  "failed_questions =
     ''Could not generate questions. Check your API key and internet connection.''"

text \<open>
  The model's reply is the parameter \<open>resp\<close>. The result is the returned list and
  what the function does on the way: the call with its prompt, and the \<open>st.error\<close>
  message of a failure.
\<close>

definition questions_prompt :: "string \<Rightarrow> string \<Rightarrow> int \<Rightarrow> string \<Rightarrow> string" where
  "questions_prompt job_role interview_type num_questions domain =
     ''As an expert interviewer, generate '' @ str_int num_questions @ '' questions for a ''
       @ job_role @ '' '' @ interview_type @ ''.''
     @ (if domain \<noteq> [] then '' Focus on the '' @ domain @ '' domain.'' else [])
     @ (if interview_type = ''Technical Interview''
        then '' Include questions on algorithms, data structures, and core concepts relevant to the role.''
        else if interview_type = ''Behavioral Interview''
        then '' Ensure these are STAR-format behavioral questions.''
        else [])
     @ '' Provide only the questions, one per line, without any numbering, bullet points, or introductory/concluding remarks.''"

definition generate_llm_questions_gemini ::
  "string \<Rightarrow> string \<Rightarrow> int \<Rightarrow> string \<Rightarrow> llm_response \<Rightarrow> string list \<times> effect list" where
  "generate_llm_questions_gemini job_role interview_type num_questions domain resp =
     (let prompt = questions_prompt job_role interview_type num_questions domain
      in case resp of
        Blocked \<Rightarrow>
          (list_times blocked_questions num_questions,
           [Call Questions prompt,
            Error ''The response for generating questions was blocked. Please try again.''])
      | Text t \<Rightarrow>
          (let questions_text = strip t;
               questions = map strip (filter (\<lambda>q. strip q \<noteq> []) (split_on newline questions_text))
           in (slice_to questions num_questions, [Call Questions prompt]))
      | Raised e \<Rightarrow>
          (list_times failed_questions num_questions,
           [Call Questions prompt, Error (''Error generating questions with Gemini: '' @ e)]))"

section \<open>\<open>evaluate_llm_answer_gemini\<close>\<close>

definition evaluation_prompt :: "string \<Rightarrow> string \<Rightarrow> string \<Rightarrow> string \<Rightarrow> string \<Rightarrow> string" where
  \<open>evaluation_prompt job_role interview_type question user_answer domain =
     (let criteria =
            (if interview_type = ''Technical Interview''
             then ''technical accuracy, problem-solving approach, and clarity.''
             else ''adherence to STAR format (Situation, Task, Action, Result), relevance, and clarity.'');
          context = ''The candidate is interviewing for a '' @ job_role
            @ '' role. The question is: '' @ [CHR 0x27] @ question @ [CHR 0x27] @ ''.''
            @ (if domain \<noteq> [] then '' The domain is '' @ domain @ ''.'' else [])
      in ''\<newline>    You are an experienced interviewer. Evaluate the candidate's answer.''
       @ ''\<newline>    Context: '' @ context
       @ ''\<newline>    Question: "'' @ question @ ''"''
       @ ''\<newline>    Candidate's Answer: "'' @ user_answer @ ''"''
       @ ''\<newline>    ''
       @ ''\<newline>    Provide:''
       @ ''\<newline>    1. A brief feedback comment on strengths and weaknesses, focusing on '' @ criteria @ ''.''
       @ ''\<newline>    2. A score for the answer, formatted exactly as: "Score: [score]/10".''
       @ ''\<newline>    3. A suggestion for improvement.''
       @ ''\<newline>    ''
       @ ''\<newline>    Use these exact headings: "Feedback:", "Score:", and "Improvement Suggestion:".''
       @ ''\<newline>    '')\<close>

definition evaluate_llm_answer_gemini ::
  "string \<Rightarrow> string \<Rightarrow> string \<Rightarrow> string \<Rightarrow> string \<Rightarrow> llm_response \<Rightarrow> string \<times> effect list" where
  "evaluate_llm_answer_gemini job_role interview_type question user_answer domain resp =
     (let prompt = evaluation_prompt job_role interview_type question user_answer domain
      in case resp of
        Blocked \<Rightarrow>
          (''Evaluation was blocked. The answer might contain sensitive content.'',
           [Call Evaluation prompt])
      | Text t \<Rightarrow> (strip t, [Call Evaluation prompt])
      | Raised e \<Rightarrow>
          (''Could not evaluate answer due to an error.'',
           [Call Evaluation prompt, Error (''Error evaluating answer with Gemini: '' @ e)]))"

section \<open>Score extraction\<close>

record response =
  question :: string
  answer :: string
  feedback :: string

text \<open>
  \<open>re.search(r"Score: (\d+)/10", s)\<close>, returning group 1 of the leftmost match.
  At a position the pattern matches when the text reads \<open>Score: \<close>, then a run of
  digits, then \<open>/10\<close>. The run is the longest one: a shorter run is followed by a
  digit, not by \<open>/\<close>, so backtracking into \<open>\d+\<close> finds nothing more.
\<close>

definition match_score :: "string \<Rightarrow> string option" where
  "match_score s =
     (if starts_with s ''Score: '' then
        (let rest = drop 7 s;
             ds = takeWhile is_digit rest
         in if ds \<noteq> [] \<and> starts_with (dropWhile is_digit rest) ''/10'' then Some ds else None)
      else None)"

fun search_score :: "string \<Rightarrow> string option" where
  "search_score [] = None"
| "search_score (c # cs) =
     (case match_score (c # cs) of
        Some ds \<Rightarrow> Some ds
      | None \<Rightarrow> search_score cs)"

text \<open>
  \<open>int(ds)\<close> on a string of decimal digits. The interpreter refuses a string of more
  than \<open>max_str_digits\<close> digits with a \<open>ValueError\<close> (4300 by default from Python
  3.11 on; 0 stands for no limit, which is also the behaviour of older versions).
\<close>

definition digits_value :: "string \<Rightarrow> nat" where
  "digits_value ds = foldl (\<lambda>a c. 10 * a + (of_char c - 48)) 0 ds"

definition py_int :: "nat \<Rightarrow> string \<Rightarrow> py_error + nat" where
  "py_int max_str_digits ds =
     (if 0 < max_str_digits \<and> max_str_digits < length ds then Inl ValueError
      else Inr (digits_value ds))"

section \<open>Floats\<close>

text \<open>
  A non-negative binary64 float is a pair \<open>(m, s)\<close> with the value \<open>m * 2 ^ s\<close>.
  \<open>a / b\<close> on integers is the float nearest to the exact quotient, ties to the even
  mantissa, and an \<open>OverflowError\<close> when that is beyond the largest float.
  \<open>f"{x:.1f}"\<close> is the decimal with one fractional digit nearest to the exact value
  of the float, ties to the even digit.
\<close>

definition round_half_even :: "nat \<Rightarrow> nat \<Rightarrow> nat" where
  "round_half_even a b =
     (let q = a div b; r = a mod b
      in if 2 * r < b then q
         else if b < 2 * r then q + 1
         else if even q then q else q + 1)"

fun bit_length :: "nat \<Rightarrow> nat" where
  "bit_length n = (if n = 0 then 0 else Suc (bit_length (n div 2)))"

declare bit_length.simps [simp del]

definition truediv :: "nat \<Rightarrow> nat \<Rightarrow> py_error + nat \<times> int" where
  "truediv a b =
     (if a = 0 then Inr (0, 0)
      else
        (let d = int (bit_length a) - int (bit_length b);
             e = (if b * 2 ^ nat d \<le> a * 2 ^ nat (- d) then d else d - 1);
             s = max (e - 52) (- 1074);
             m = round_half_even (a * 2 ^ nat (- s)) (b * 2 ^ nat s)
         in if 2 ^ 1024 \<le> m * 2 ^ nat s then Inl OverflowError else Inr (m, s)))"

definition format_1f :: "nat \<times> int \<Rightarrow> string" where
  "format_1f x =
     (case x of (m, s) \<Rightarrow>
        (let t = round_half_even (10 * m * 2 ^ nat s) (2 ^ nat (- s))
         in str_nat (t div 10) @ ''.'' @ str_nat (t mod 10)))"

section \<open>\<open>generate_final_report_gemini\<close>\<close>

text \<open>
  The loop over the responses, with its three variables \<open>total_score\<close>,
  \<open>num_answered\<close> and \<open>report_prompt_parts\<close>. An exception of \<open>int\<close> ends it.
\<close>

definition response_part :: "response \<Rightarrow> string" where
  \<open>response_part q_obj =
     ''\<newline>---\<newline>Question: '' @ question q_obj
     @ ''\<newline>Candidate's Answer: '' @ answer q_obj
     @ ''\<newline>Feedback Given: '' @ feedback q_obj\<close>

fun score_loop ::
  "nat \<Rightarrow> response list \<Rightarrow> nat \<times> nat \<times> string list \<Rightarrow> py_error + nat \<times> nat \<times> string list" where
  "score_loop lim [] acc = Inr acc"
| "score_loop lim (q_obj # rest) (total_score, num_answered, parts) =
     (case search_score (feedback q_obj) of
        None \<Rightarrow> score_loop lim rest (total_score, num_answered, parts @ [response_part q_obj])
      | Some ds \<Rightarrow>
          (case py_int lim ds of
             Inl err \<Rightarrow> Inl err
           | Inr v \<Rightarrow>
               score_loop lim rest
                 (total_score + v, num_answered + 1, parts @ [response_part q_obj])))"

text \<open>
  \<open>avg_score\<close> as the text \<open>{avg_score:.1f}\<close> puts into the prompt; the integer 0 of
  the case without scores is formatted as the float 0.0.
\<close>

definition avg_score_text :: "nat \<Rightarrow> nat \<Rightarrow> py_error + string" where
  "avg_score_text total_score num_answered =
     (if 0 < num_answered then
        (case truediv total_score num_answered of
           Inl err \<Rightarrow> Inl err
         | Inr x \<Rightarrow> Inr (format_1f x))
      else Inr (format_1f (0, 0)))"

definition report_prompt :: "nat \<Rightarrow> string \<Rightarrow> string \<Rightarrow> response list \<Rightarrow> py_error + string" where
  \<open>report_prompt lim job_role interview_type responses_with_feedback =
     (case score_loop lim responses_with_feedback
             (0, 0,
              [''Generate a final interview summary report for a '' @ job_role @ '' ''
               @ interview_type @ '' based on the following interactions:'']) of
        Inl err \<Rightarrow> Inl err
      | Inr (total_score, num_answered, parts) \<Rightarrow>
          (case avg_score_text total_score num_answered of
             Inl err \<Rightarrow> Inl err
           | Inr avg \<Rightarrow>
               Inr (join newline
                 (parts @
                  [''\<newline>---\<newline>Based on all interactions (average score: '' @ avg
                   @ ''/10), provide a comprehensive final report with these sections:'',
                   ''1. **Overall Strengths** (in bullet points)'',
                   ''2. **Overall Areas for Improvement** (in bullet points)'',
                   ''3. **Suggested Resources** for further learning'',
                   ''4. A final overall rating formatted as: '' @ [CHR 0x27]
                   @ ''**Final Score: [score]/10**'' @ [CHR 0x27]]))))\<close>

text \<open>
  The exceptions of the loop and of the division are raised outside the function's
  \<open>try\<close>, so they leave it (\<open>Inl\<close>); a failure of the model call is caught.
\<close>

definition generate_final_report_gemini ::
  "nat \<Rightarrow> string \<Rightarrow> string \<Rightarrow> response list \<Rightarrow> llm_response \<Rightarrow> py_error + string \<times> effect list" where
  "generate_final_report_gemini lim job_role interview_type responses_with_feedback resp =
     (case report_prompt lim job_role interview_type responses_with_feedback of
        Inl err \<Rightarrow> Inl err
      | Inr full_prompt \<Rightarrow>
          Inr (case resp of
                 Blocked \<Rightarrow>
                   (''The final report was blocked due to safety settings.'',
                    [Call Report full_prompt])
               | Text t \<Rightarrow> (strip t, [Call Report full_prompt])
               | Raised e \<Rightarrow>
                   (''Could not generate final report.'',
                    [Call Report full_prompt,
                     Error (''Error generating final report with Gemini: '' @ e)])))"

section \<open>\<open>recognize_speech_live\<close>\<close>

text \<open>
  What the microphone and the recognition service do is the parameter. The function
  returns the recognised text, or the empty string after a failure. The pictographs
  in front of its messages are outside the character model and are dropped.
\<close>

datatype speech = Heard string | UnknownValueError | RequestError | OtherError string

definition recognize_speech_live :: "speech \<Rightarrow> string \<times> effect list" where
  "recognize_speech_live sp =
     (case sp of
        Heard t \<Rightarrow> (t, [])
      | UnknownValueError \<Rightarrow> ([], [Warning ''Could not understand your response.''])
      | RequestError \<Rightarrow> ([], [Error ''Speech recognition service unavailable.''])
      | OtherError e \<Rightarrow> ([], [Error (''Microphone Error: '' @ e)]))"

section \<open>The session and one run of \<open>interview_page\<close>\<close>

text \<open>
  \<open>st.session_state\<close> between two runs of the script is either empty (\<open>None\<close>: at
  startup, and after all keys were deleted) or holds the ten keys below. The six keys
  of the initialisation block and the four keys of the Setup screen are always written
  in the same run, so no other key set occurs between runs.
\<close>

record session =
  interview_started :: bool
  all_responses :: "response list"
  current_question_idx :: nat
  questions :: "string list"
  current_user_answer :: string
  final_report :: "string option"
  job_role :: string
  domain :: string
  interview_type :: string
  num_questions :: int

text \<open>
  A run is started by at most one pressed button. Its inputs are the values of the
  widgets, the reply of the model and of the speech recogniser to a call made in this
  run, and the interpreter's limit on the digits of an integer string.
\<close>

datatype button =
    NoButton
  | StartInterview
  | AnswerWithVoice
  | SubmitAnswer
  | SkipQuestion
  | GenerateFinalReport
  | StartNewInterview

record inputs =
  w_job_role :: string
  w_domain :: string
  w_interview_type :: string
  w_num_questions :: int
  w_user_answer :: string
  model_reply :: llm_response
  speech_reply :: speech
  max_str_digits :: nat

text \<open>
  \<open>st.button(...)\<close> is true in the run its press started, and only a button that the
  run reaches can have been pressed: a press of a button that the current screen does
  not show falls through every branch.
\<close>

definition interview_page :: "button \<Rightarrow> inputs \<Rightarrow> session option \<Rightarrow> session option \<times> effect list" where
  "interview_page pressed i state =
     (let s0 = (case state of
                  None \<Rightarrow>
                    \<lparr>interview_started = False, all_responses = [], current_question_idx = 0,
                     questions = [], current_user_answer = [], final_report = None,
                     job_role = w_job_role i, domain = w_domain i,
                     interview_type = w_interview_type i, num_questions = w_num_questions i\<rparr>
                | Some s \<Rightarrow> s)
      in
      if \<not> interview_started s0 then
        (let s1 = s0\<lparr>job_role := w_job_role i, domain := w_domain i,
                      interview_type := w_interview_type i, num_questions := w_num_questions i\<rparr>
         in
         if pressed = StartInterview then
           (case generate_llm_questions_gemini (job_role s1) (interview_type s1)
                   (num_questions s1) (domain s1) (model_reply i) of
              (qs, es) \<Rightarrow>
                (let s2 = s1\<lparr>questions := qs\<rparr>
                 in
                 if (case qs of [] \<Rightarrow> False | q0 # _ \<Rightarrow> \<not> str_contains q0 ''Could not generate'') then
                   (Some (s2\<lparr>interview_started := True, current_question_idx := 0,
                              all_responses := [], final_report := None\<rparr>),
                    es @ [Rerun])
                 else
                   (Some s2,
                    es @ [Error ''Failed to generate questions. Please check your API key and try again.''])))
         else (Some s1, []))
      else if current_question_idx s0 < length (questions s0) then
        (let idx = current_question_idx s0;
             q = questions s0 ! idx;
             user_answer = w_user_answer i
         in
         if pressed = AnswerWithVoice then
           (case recognize_speech_live (speech_reply i) of
              (t, es) \<Rightarrow> (Some (s0\<lparr>current_user_answer := t\<rparr>), es @ [Rerun]))
         else if pressed = SubmitAnswer then
           (if user_answer \<noteq> [] then
              (case evaluate_llm_answer_gemini (job_role s0) (interview_type s0) q user_answer
                      (domain s0) (model_reply i) of
                 (fb, es) \<Rightarrow>
                   (Some (s0\<lparr>all_responses :=
                                all_responses s0 @ [\<lparr>question = q, answer = user_answer, feedback = fb\<rparr>],
                              current_question_idx := idx + 1,
                              current_user_answer := []\<rparr>),
                    es @ [Rerun]))
            else (Some s0, [Warning ''Please provide an answer before submitting.'']))
         else if pressed = SkipQuestion then
           (Some (s0\<lparr>all_responses :=
                        all_responses s0 @ [\<lparr>question = q, answer = ''Skipped'', feedback = ''No feedback.''\<rparr>],
                      current_question_idx := idx + 1,
                      current_user_answer := []\<rparr>),
            [Rerun])
         else (Some s0, []))
      else
        (if final_report s0 = None \<and> pressed = GenerateFinalReport then
           (case generate_final_report_gemini (max_str_digits i) (job_role s0) (interview_type s0)
                   (all_responses s0) (model_reply i) of
              Inl err \<Rightarrow> (Some s0, [Uncaught err])
            | Inr (rep, es) \<Rightarrow> (Some (s0\<lparr>final_report := Some rep\<rparr>), es @ [Rerun]))
         else if pressed = StartNewInterview then (None, [Rerun])
         else (Some s0, [])))"

text \<open>The screen a run shows for a session, and the buttons on it.\<close>

datatype phase = Setup | InProgress | Summary | Reported

definition phase :: "session option \<Rightarrow> phase" where
  "phase state =
     (case state of
        None \<Rightarrow> Setup
      | Some s \<Rightarrow>
          if \<not> interview_started s then Setup
          else if current_question_idx s < length (questions s) then InProgress
          else if final_report s = None then Summary
          else Reported)"

definition offered :: "session option \<Rightarrow> button list" where
  "offered state =
     (case phase state of
        Setup \<Rightarrow> [StartInterview]
      | InProgress \<Rightarrow> [AnswerWithVoice, SubmitAnswer, SkipQuestion]
      | Summary \<Rightarrow> [GenerateFinalReport, StartNewInterview]
      | Reported \<Rightarrow> [StartNewInterview])"

text \<open>A sequence of runs, from a given session.\<close>

fun runs :: "session option \<Rightarrow> (button \<times> inputs) list \<Rightarrow> session option" where
  "runs state [] = state"
| "runs state ((pressed, i) # rest) = runs (fst (interview_page pressed i state)) rest"

section \<open>Notions used in the properties\<close>

text \<open>
  The invariant of the sessions that runs produce: the index counts the responses and
  stays within the questions; before the start there is neither a response nor a
  report; and a report is only there once every question has been passed.
\<close>

definition wf :: "session \<Rightarrow> bool" where
  "wf s =
     (current_question_idx s = length (all_responses s) \<and>
      current_question_idx s \<le> length (questions s) \<and>
      (\<not> interview_started s \<longrightarrow> current_question_idx s = 0 \<and> final_report s = None) \<and>
      (final_report s \<noteq> None \<longrightarrow> current_question_idx s = length (questions s)))"

text \<open>An advance: a press of Skip, or a press of Submit with a non-empty answer.\<close>

definition advance :: "button \<times> inputs \<Rightarrow> bool" where
  "advance ev =
     (fst ev = SkipQuestion \<or> fst ev = SubmitAnswer \<and> w_user_answer (snd ev) \<noteq> [])"

text \<open>
  The test of the start button on the generated list, negated: the list is empty, or
  its first element contains \<open>Could not generate\<close>.
\<close>

definition generation_failed :: "string list \<Rightarrow> bool" where
  "generation_failed qs =
     (case qs of [] \<Rightarrow> True | q0 # _ \<Rightarrow> str_contains q0 ''Could not generate'')"

text \<open>
  The responses whose feedback has a match of the score pattern, the digits and the
  number of their first match, and whether \<open>int\<close> refuses the digits.
\<close>

definition scored :: "response list \<Rightarrow> response list" where
  "scored rs = filter (\<lambda>r. search_score (feedback r) \<noteq> None) rs"

definition score_digits :: "response \<Rightarrow> string" where
  "score_digits r = (case search_score (feedback r) of None \<Rightarrow> [] | Some ds \<Rightarrow> ds)"

definition score_value :: "response \<Rightarrow> nat" where
  "score_value r = digits_value (score_digits r)"

definition too_long :: "nat \<Rightarrow> response \<Rightarrow> bool" where
  "too_long lim r = (0 < lim \<and> lim < length (score_digits r))"

text \<open>The report prompt, given the text of the average.\<close>

definition prompt_text :: "string \<Rightarrow> string \<Rightarrow> response list \<Rightarrow> string \<Rightarrow> string" where
  \<open>prompt_text role kind rs avg =
     join newline
       ([''Generate a final interview summary report for a '' @ role @ '' ''
          @ kind @ '' based on the following interactions:'']
        @ map response_part rs
        @ [''\<newline>---\<newline>Based on all interactions (average score: '' @ avg
             @ ''/10), provide a comprehensive final report with these sections:'',
           ''1. **Overall Strengths** (in bullet points)'',
           ''2. **Overall Areas for Improvement** (in bullet points)'',
           ''3. **Suggested Resources** for further learning'',
           ''4. A final overall rating formatted as: '' @ [CHR 0x27]
             @ ''**Final Score: [score]/10**'' @ [CHR 0x27]])\<close>

text \<open>
  The lines of a reply that are not blank, each without its leading and trailing
  whitespace.
\<close>

definition stripped_lines :: "string \<Rightarrow> string list" where
  "stripped_lines t = map strip (filter (\<lambda>q. strip q \<noteq> []) (split_on newline t))"

text \<open>
  The average as the specification words it: the sum of the scores divided by the
  number of scored responses, truncated to one decimal place, and 0.0 without a score.
\<close>

definition spec_truncated_average :: "response list \<Rightarrow> string" where
  "spec_truncated_average rs =
     (if scored rs = [] then ''0.0''
      else
        (let tenths = (10 * sum_list (map score_value (scored rs))) div length (scored rs)
         in str_nat (tenths div 10) @ ''.'' @ str_nat (tenths mod 10)))"

text \<open>
  The result of question generation as the specification words it: the non-empty
  lines of the reply, in their order, at most \<open>count\<close> of them.
\<close>

definition spec_generateQuestions :: "string \<Rightarrow> nat \<Rightarrow> string list" where
  "spec_generateQuestions t n = take n (filter (\<lambda>l. l \<noteq> []) (split_on newline t))"

text \<open>
  A sample interview: three questions for a backend engineer; the session after the
  start, after the first answer, after the last question and after the report; and a
  start whose reply is blocked.
\<close>

definition scenario_start :: inputs where
  "scenario_start =
     \<lparr>w_job_role = ''Backend Engineer'', w_domain = [],
      w_interview_type = ''Technical Interview'', w_num_questions = 3, w_user_answer = [],
      model_reply = Text ''Q1\<newline>Q2\<newline>Q3'', speech_reply = Heard [],
      max_str_digits = 4300\<rparr>"

definition scenario_answer :: inputs where
  "scenario_answer =
     scenario_start\<lparr>w_user_answer := ''An answer'', model_reply := Text ''Score: 7/10''\<rparr>"

definition scenario_report :: inputs where
  "scenario_report = scenario_start\<lparr>model_reply := Text ''Report''\<rparr>"

definition scenario_blocked :: inputs where
  "scenario_blocked = scenario_start\<lparr>model_reply := Blocked\<rparr>"

definition scenario_session :: session where
  "scenario_session =
     \<lparr>interview_started = True, all_responses = [], current_question_idx = 0,
      questions = [''Q1'', ''Q2'', ''Q3''], current_user_answer = [], final_report = None,
      job_role = ''Backend Engineer'', domain = [],
      interview_type = ''Technical Interview'', num_questions = 3\<rparr>"

definition scenario_answered :: session where
  "scenario_answered =
     scenario_session
       \<lparr>all_responses := [\<lparr>question = ''Q1'', answer = ''An answer'', feedback = ''Score: 7/10''\<rparr>],
        current_question_idx := 1\<rparr>"

definition scenario_completed :: session where
  "scenario_completed =
     scenario_session
       \<lparr>all_responses :=
          [\<lparr>question = ''Q1'', answer = ''An answer'', feedback = ''Score: 7/10''\<rparr>,
           \<lparr>question = ''Q2'', answer = ''An answer'', feedback = ''Score: 7/10''\<rparr>,
           \<lparr>question = ''Q3'', answer = ''Skipped'', feedback = ''No feedback.''\<rparr>],
        current_question_idx := 3\<rparr>"

definition scenario_reported :: session where
  "scenario_reported = scenario_completed\<lparr>final_report := Some ''Report''\<rparr>"

text \<open>Sample feedback with scores, and a reply with blanks around and between its lines.\<close>

definition score_7 :: "response list" where
  "score_7 =
     [\<lparr>question = ''Q1'', answer = ''A1'',
       feedback = ''Feedback: ok\<newline>Score: 7/10\<newline>Improvement Suggestion: none''\<rparr>]"

definition scores_7_8_8 :: "response list" where
  "scores_7_8_8 =
     [\<lparr>question = ''Q1'', answer = ''A1'', feedback = ''Score: 7/10''\<rparr>,
      \<lparr>question = ''Q2'', answer = ''A2'', feedback = ''Score: 8/10''\<rparr>,
      \<lparr>question = ''Q3'', answer = ''A3'', feedback = ''Score: 8/10''\<rparr>]"

definition padded_reply :: string where
  "padded_reply = '' Q1 \<newline> \<newline>Q2''"

section \<open>Single runs\<close>

lemma phase_InProgress:
  "phase (Some s) = InProgress \<longleftrightarrow>
     interview_started s \<and> current_question_idx s < length (questions s)"
  by (simp add: phase_def)

lemma phase_Setup: "phase (Some s) = Setup \<longleftrightarrow> \<not> interview_started s"
  by (simp add: phase_def)


lemma page_skip:
  assumes "interview_started s" and "current_question_idx s < length (questions s)"
  shows "interview_page SkipQuestion i (Some s) =
           (Some (s\<lparr>all_responses := all_responses s @
                      [\<lparr>question = questions s ! current_question_idx s,
                        answer = ''Skipped'', feedback = ''No feedback.''\<rparr>],
                    current_question_idx := current_question_idx s + 1,
                    current_user_answer := []\<rparr>),
            [Rerun])"
  using assms by (simp add: interview_page_def Let_def)

lemma page_submit:
  assumes "interview_started s" and "current_question_idx s < length (questions s)"
    and "w_user_answer i \<noteq> []"
  shows "interview_page SubmitAnswer i (Some s) =
           (case evaluate_llm_answer_gemini (job_role s) (interview_type s)
                   (questions s ! current_question_idx s) (w_user_answer i) (domain s)
                   (model_reply i) of
              (fb, es) \<Rightarrow>
                (Some (s\<lparr>all_responses := all_responses s @
                      [\<lparr>question = questions s ! current_question_idx s,
                        answer = w_user_answer i, feedback = fb\<rparr>],
                    current_question_idx := current_question_idx s + 1,
                    current_user_answer := []\<rparr>),
                 es @ [Rerun]))"
  using assms by (simp add: interview_page_def Let_def)

lemma page_submit_empty:
  assumes "interview_started s" and "current_question_idx s < length (questions s)"
    and "w_user_answer i = []"
  shows "interview_page SubmitAnswer i (Some s) =
           (Some s, [Warning ''Please provide an answer before submitting.''])"
  using assms by (simp add: interview_page_def Let_def)

lemma page_advance:
  assumes "interview_started s" and "current_question_idx s < length (questions s)"
    and "advance (pressed, i)"
  shows "\<exists>r. fst (interview_page pressed i (Some s)) =
           Some (s\<lparr>all_responses := all_responses s @ [r],
                    current_question_idx := current_question_idx s + 1,
                    current_user_answer := []\<rparr>)"
  using assms
  by (auto simp: advance_def page_skip page_submit split: prod.splits)


lemma page_start:
  assumes "phase state = Setup"
  shows "interview_page StartInterview i state =
     (case generate_llm_questions_gemini (w_job_role i) (w_interview_type i)
             (w_num_questions i) (w_domain i) (model_reply i) of
        (qs, es) \<Rightarrow>
          (case fst (interview_page NoButton i state) of
             None \<Rightarrow> (None, [])
           | Some s1 \<Rightarrow>
               if generation_failed qs then
                 (Some (s1\<lparr>questions := qs\<rparr>),
                  es @ [Error ''Failed to generate questions. Please check your API key and try again.''])
               else
                 (Some (s1\<lparr>questions := qs, interview_started := True,
                            current_question_idx := 0, all_responses := [],
                            final_report := None\<rparr>),
                  es @ [Rerun])))"
proof (cases state)
  case None
  show ?thesis unfolding None
    by (simp add: interview_page_def Let_def generation_failed_def
        split: prod.splits list.splits)
next
  case (Some s)
  with assms have "\<not> interview_started s" by (simp add: phase_Setup)
  then show ?thesis unfolding Some
    by (simp add: interview_page_def Let_def generation_failed_def
        split: prod.splits list.splits)
qed

lemma page_render_setup:
  assumes "phase state = Setup"
  shows "\<exists>s1. fst (interview_page NoButton i state) = Some s1 \<and> \<not> interview_started s1"
proof (cases state)
  case None
  show ?thesis unfolding None by (simp add: interview_page_def Let_def)
next
  case (Some s)
  with assms have "\<not> interview_started s" by (simp add: phase_Setup)
  then show ?thesis unfolding Some by (simp add: interview_page_def Let_def)
qed

lemma page_started:
  assumes "phase state = Setup"
    and "fst (interview_page StartInterview i state) = Some s0"
    and "interview_started s0"
  shows "current_question_idx s0 = 0 \<and> all_responses s0 = [] \<and> final_report s0 = None \<and>
         num_questions s0 = w_num_questions i \<and>
         questions s0 = fst (generate_llm_questions_gemini (w_job_role i) (w_interview_type i)
             (w_num_questions i) (w_domain i) (model_reply i))"
proof -
  obtain s1 where s1: "fst (interview_page NoButton i state) = Some s1" "\<not> interview_started s1"
    using page_render_setup [OF assms(1)] by blast
  have n: "num_questions s1 = w_num_questions i"
    using s1(1) assms(1)
    by (cases state) (auto simp: interview_page_def Let_def phase_Setup)
  show ?thesis
    using assms(2,3) s1 n unfolding page_start [OF assms(1)]
    by (auto split: prod.splits if_splits)
qed


lemma page_reported:
  assumes "interview_started s" and "\<not> current_question_idx s < length (questions s)"
    and "final_report s \<noteq> None"
  shows "interview_page pressed i (Some s) =
           (if pressed = StartNewInterview then (None, [Rerun]) else (Some s, []))"
  using assms by (auto simp: interview_page_def)

lemma page_generate:
  assumes "interview_started s" and "\<not> current_question_idx s < length (questions s)"
    and "final_report s = None"
  shows "fst (interview_page GenerateFinalReport i (Some s)) =
           (case report_prompt (max_str_digits i) (job_role s) (interview_type s)
                   (all_responses s) of
              Inl err \<Rightarrow> Some s
            | Inr p \<Rightarrow>
                Some (s\<lparr>final_report := Some
                  (case model_reply i of
                     Blocked \<Rightarrow> ''The final report was blocked due to safety settings.''
                   | Text t \<Rightarrow> strip t
                   | Raised e \<Rightarrow> ''Could not generate final report.'')\<rparr>))"
  using assms
  by (simp add: interview_page_def generate_final_report_gemini_def
      split: sum.splits llm_response.splits)

lemma page_sets_report:
  assumes "wf s" and "final_report s = None"
    and "fst (interview_page pressed i (Some s)) = Some s'" and "final_report s' \<noteq> None"
  shows "pressed = GenerateFinalReport \<and> phase (Some s) = Summary \<and>
         current_question_idx s = length (questions s)"
proof (cases "interview_started s")
  case False
  with assms show ?thesis
    by (auto simp: interview_page_def Let_def split: prod.splits list.splits if_splits)
next
  case started: True
  show ?thesis
  proof (cases "current_question_idx s < length (questions s)")
    case True
    with started assms show ?thesis
      by (cases pressed)
        (auto simp: interview_page_def Let_def split: prod.splits if_splits)
  next
    case False
    with started assms show ?thesis
      by (cases pressed)
        (auto simp: interview_page_def Let_def phase_def wf_def split: prod.splits sum.splits if_splits)
  qed
qed

section \<open>The invariant\<close>

lemma page_wf_setup:
  assumes "\<not> interview_started s" and "current_question_idx s = 0" and "final_report s = None"
    and "all_responses s = []"
  shows "case fst (interview_page pressed i (Some s)) of None \<Rightarrow> True | Some s' \<Rightarrow> wf s'"
  using assms
  by (simp add: interview_page_def wf_def Let_def split: prod.splits list.splits)

lemma page_wf_fresh:
  "case fst (interview_page pressed i None) of None \<Rightarrow> True | Some s' \<Rightarrow> wf s'"
  by (simp add: interview_page_def wf_def Let_def split: prod.splits list.splits)

lemma page_wf_progress:
  assumes "interview_started s" and "current_question_idx s < length (questions s)" and "wf s"
  shows "case fst (interview_page pressed i (Some s)) of None \<Rightarrow> True | Some s' \<Rightarrow> wf s'"
  using assms
  by (cases pressed) (simp_all add: interview_page_def wf_def Let_def split: prod.splits)

lemma page_wf_summary:
  assumes "interview_started s" and "\<not> current_question_idx s < length (questions s)" and "wf s"
  shows "case fst (interview_page pressed i (Some s)) of None \<Rightarrow> True | Some s' \<Rightarrow> wf s'"
  using assms
  by (cases pressed) (simp_all add: interview_page_def wf_def Let_def split: prod.splits sum.splits)

lemma page_wf:
  assumes "case state of None \<Rightarrow> True | Some s \<Rightarrow> wf s"
  shows "case fst (interview_page pressed i state) of None \<Rightarrow> True | Some s \<Rightarrow> wf s"
proof (cases state)
  case None
  then show ?thesis by (simp only: page_wf_fresh)
next
  case (Some s)
  with assms have w: "wf s" by simp
  show ?thesis
  proof (cases "interview_started s")
    case False
    with w have "current_question_idx s = 0" "final_report s = None" "all_responses s = []"
      by (auto simp: wf_def)
    with False show ?thesis unfolding Some by (rule page_wf_setup)
  next
    case True
    then show ?thesis unfolding Some
      using w page_wf_progress page_wf_summary by blast
  qed
qed

lemma runs_wf:
  assumes "case state of None \<Rightarrow> True | Some s \<Rightarrow> wf s"
  shows "case runs state evs of None \<Rightarrow> True | Some s \<Rightarrow> wf s"
  using assms
proof (induction evs arbitrary: state)
  case Nil
  then show ?case by simp
next
  case (Cons ev evs)
  obtain pressed i where ev: "ev = (pressed, i)" by (cases ev)
  show ?case
    unfolding ev runs.simps
    by (rule Cons.IH) (rule page_wf [OF Cons.prems])
qed

lemma reachable_wf: "runs None evs = Some s \<Longrightarrow> wf s"
  using runs_wf [of None evs] by simp

lemma runs_append: "runs state (evs @ evs') = runs (runs state evs) evs'"
  by (induction evs arbitrary: state) auto


section \<open>The lines of a reply\<close>

lemma split_on_ne: "split_on d s \<noteq> []"
  by (induction s) (auto split: list.splits)

lemma strip_Cons_space: "is_space c \<Longrightarrow> strip (c # l) = strip l"
  by (simp add: strip_def)

lemma strip_snoc_space:
  assumes "is_space c"
  shows "strip (l @ [c]) = strip l"
proof (cases "\<forall>x\<in>set l. is_space x")
  case True
  with assms have "dropWhile is_space (l @ [c]) = []" "dropWhile is_space l = []"
    by simp_all
  then show ?thesis by (simp only: strip_def)
next
  case False
  then have "dropWhile is_space (l @ [c]) = dropWhile is_space l @ [c]"
    by (metis dropWhile_append1)
  with assms show ?thesis by (simp add: strip_def)
qed

lemma stripped_lines_Cons:
  assumes "is_space c"
  shows "stripped_lines (c # cs) = stripped_lines cs"
proof -
  obtain l ls where "split_on newline cs = l # ls"
    using split_on_ne [of newline cs] by (cases "split_on newline cs") auto
  with assms show ?thesis
    by (auto simp: stripped_lines_def strip_Cons_space strip_def)
qed

lemma stripped_lines_dropWhile: "stripped_lines (dropWhile is_space t) = stripped_lines t"
  by (induction t) (auto simp: stripped_lines_Cons)

lemma split_on_snoc:
  "split_on d (cs @ [c]) =
     (if c = d then split_on d cs @ [[]]
      else butlast (split_on d cs) @ [last (split_on d cs) @ [c]])"
proof (induction cs)
  case Nil
  show ?case by simp
next
  case (Cons a cs)
  obtain l ls where sp: "split_on d cs = l # ls"
    using split_on_ne [of d cs] by (cases "split_on d cs") auto
  show ?case
  proof (cases "c = d")
    case True
    with Cons sp show ?thesis by auto
  next
    case False
    with Cons sp show ?thesis by (cases ls) auto
  qed
qed

lemma stripped_lines_snoc:
  assumes "is_space c"
  shows "stripped_lines (cs @ [c]) = stripped_lines cs"
proof -
  obtain ls l where "split_on newline cs = ls @ [l]"
    using split_on_ne [of newline cs] by (metis rev_exhaust)
  with assms show ?thesis
    by (simp add: stripped_lines_def split_on_snoc strip_snoc_space) (simp add: strip_def)
qed

lemma stripped_lines_rev_dropWhile:
  "stripped_lines (rev (dropWhile is_space (rev t))) = stripped_lines t"
  by (induction t rule: rev_induct) (auto simp: stripped_lines_snoc)

lemma stripped_lines_strip: "stripped_lines (strip t) = stripped_lines t"
  unfolding strip_def by (simp only: stripped_lines_rev_dropWhile stripped_lines_dropWhile)


lemma sentinels_fail:
  "generation_failed (list_times blocked_questions n)"
  "generation_failed (list_times failed_questions n)"
proof -
  have b: "str_contains blocked_questions ''Could not generate''"
    by (simp add: blocked_questions_def starts_with_def)
  have f: "str_contains failed_questions ''Could not generate''"
    by (simp add: failed_questions_def starts_with_def)
  show "generation_failed (list_times blocked_questions n)"
    using b by (cases "nat n") (simp_all add: generation_failed_def list_times_def)
  show "generation_failed (list_times failed_questions n)"
    using f by (cases "nat n") (simp_all add: generation_failed_def list_times_def)
qed

lemma generation_failed_reply:
  assumes "model_reply i = Blocked \<or> model_reply i = Raised e"
  shows "generation_failed (fst (generate_llm_questions_gemini jr it n d (model_reply i)))"
  using assms sentinels_fail
  by (auto simp: generate_llm_questions_gemini_def Let_def)

section \<open>The score loop\<close>

lemma score_loop_closed:
  "score_loop lim rs (t, n, ps) =
     (if \<exists>r\<in>set (scored rs). too_long lim r then Inl ValueError
      else Inr (t + sum_list (map score_value (scored rs)), n + length (scored rs),
                ps @ map response_part rs))"
proof (induction rs arbitrary: t n ps)
  case Nil
  show ?case by (simp add: scored_def)
next
  case (Cons r rs)
  show ?case
  proof (cases "search_score (feedback r)")
    case None
    then have "scored (r # rs) = scored rs" by (simp add: scored_def)
    with None Cons show ?thesis by simp
  next
    case (Some ds)
    then have sc: "scored (r # rs) = r # scored rs" and d: "score_digits r = ds"
      by (simp_all add: scored_def score_digits_def)
    show ?thesis
    proof (cases "too_long lim r")
      case True
      with Some d sc show ?thesis by (simp add: py_int_def too_long_def)
    next
      case False
      with Some d have "py_int lim ds = Inr (score_value r)"
        by (auto simp: py_int_def too_long_def score_value_def)
      with Some sc False Cons show ?thesis by simp
    qed
  qed
qed

lemma report_prompt_closed:
  "report_prompt lim jr it rs =
     (if \<exists>r\<in>set (scored rs). too_long lim r then Inl ValueError
      else
        (case avg_score_text (sum_list (map score_value (scored rs))) (length (scored rs)) of
           Inl err \<Rightarrow> Inl err
         | Inr avg \<Rightarrow> Inr (prompt_text jr it rs avg)))"
  by (auto simp: report_prompt_def score_loop_closed prompt_text_def split: sum.splits)

lemma zero_text: "format_1f (0, 0) = ''0.0''"
  by (simp add: format_1f_def round_half_even_def str_nat.simps digit_char_def)

lemma avg_score_text_closed:
  "avg_score_text t n =
     (if n = 0 then Inr ''0.0''
      else case truediv t n of Inl err \<Rightarrow> Inl err | Inr x \<Rightarrow> Inr (format_1f x))"
  by (simp add: avg_score_text_def zero_text)

section \<open>The samples\<close>

lemma scenario_started:
  "fst (interview_page StartInterview scenario_start None) = Some scenario_session"
  by code_simp

lemma scenario_first_answer:
  "runs None [(StartInterview, scenario_start), (SubmitAnswer, scenario_answer)] =
     Some scenario_answered"
  by code_simp

lemma scenario_answered_phase: "phase (Some scenario_answered) = InProgress"
  by (simp add: phase_def scenario_answered_def scenario_session_def)

lemma scenario_all_answered:
  "runs None [(StartInterview, scenario_start), (SubmitAnswer, scenario_answer),
     (SubmitAnswer, scenario_answer), (SkipQuestion, scenario_start)] =
     Some scenario_completed"
  by code_simp

lemma scenario_prompt:
  "report_prompt 4300 ''Backend Engineer'' ''Technical Interview''
     (all_responses scenario_completed) =
   Inr (prompt_text ''Backend Engineer'' ''Technical Interview''
     (all_responses scenario_completed) ''7.0'')"
proof -
  let ?rs = "all_responses scenario_completed"
  have sc: "scored ?rs = take 2 ?rs"
    by (simp add: scored_def scenario_completed_def scenario_session_def
        match_score_def starts_with_def is_digit_def)
  have vs: "map score_value (take 2 ?rs) = [7, 7]"
    by (simp add: score_value_def score_digits_def digits_value_def scenario_completed_def
        scenario_session_def match_score_def starts_with_def is_digit_def)
  have short: "\<not> (\<exists>r\<in>set (take 2 ?rs). too_long 4300 r)"
    by (simp add: too_long_def score_digits_def scenario_completed_def
        scenario_session_def match_score_def starts_with_def is_digit_def)
  have len: "length (take 2 ?rs) = 2"
    by (simp add: scenario_completed_def scenario_session_def)
  have avg: "avg_score_text 14 2 = Inr ''7.0''"
    by (simp add: avg_score_text_def truediv_def format_1f_def round_half_even_def
        bit_length.simps str_nat.simps digit_char_def)
  show ?thesis
    unfolding report_prompt_closed sc using short
    by (simp only: vs len if_False) (simp add: avg)
qed

lemma scenario_report_step:
  "fst (interview_page GenerateFinalReport scenario_report (Some scenario_completed)) =
     Some scenario_reported"
proof -
  have "interview_started scenario_completed"
    and "\<not> current_question_idx scenario_completed < length (questions scenario_completed)"
    and "final_report scenario_completed = None"
    by (simp_all add: scenario_completed_def scenario_session_def)
  from page_generate [OF this, of scenario_report] show ?thesis
    using scenario_prompt
    by (simp add: scenario_report_def scenario_start_def scenario_completed_def
      scenario_session_def scenario_reported_def strip_def is_space_def)
qed

lemma scenario_report_made:
  "runs None [(StartInterview, scenario_start), (SubmitAnswer, scenario_answer),
     (SubmitAnswer, scenario_answer), (SkipQuestion, scenario_start),
     (GenerateFinalReport, scenario_report)] =
     Some scenario_reported"
proof -
  let ?A = "[(StartInterview, scenario_start), (SubmitAnswer, scenario_answer),
     (SubmitAnswer, scenario_answer), (SkipQuestion, scenario_start)]"
  let ?B = "[(GenerateFinalReport, scenario_report)]"
  have "runs None (?A @ ?B) = runs (runs None ?A) ?B" by (rule runs_append)
  also have "\<dots> = runs (Some scenario_completed) ?B" by (simp only: scenario_all_answered)
  also have "\<dots> = Some scenario_reported" by (simp add: scenario_report_step)
  finally show ?thesis by simp
qed



lemma padded_lines: "stripped_lines padded_reply = [''Q1'', ''Q2'']"
  by (simp add: stripped_lines_def padded_reply_def newline_def strip_def is_space_def)

lemma score_7_scored: "scored score_7 = score_7"
  by (simp add: scored_def score_7_def match_score_def starts_with_def is_digit_def)

lemma score_7_values: "map score_value score_7 = [7]"
  by (simp add: score_value_def score_digits_def digits_value_def score_7_def
      match_score_def starts_with_def is_digit_def)

lemma score_7_short: "\<not> (\<exists>r\<in>set score_7. too_long 4300 r)"
  by (simp add: too_long_def score_digits_def score_7_def
      match_score_def starts_with_def is_digit_def)

lemma truediv_7_1: "truediv 7 (Suc 0) = Inr (7881299347898368, - 50)"
  by (simp add: truediv_def round_half_even_def bit_length.simps)

lemma format_7: "format_1f (7881299347898368, - 50) = ''7.0''"
  by (simp add: format_1f_def round_half_even_def str_nat.simps digit_char_def)

lemma ex_scored: "scored scores_7_8_8 = scores_7_8_8"
  by (simp add: scored_def scores_7_8_8_def match_score_def starts_with_def is_digit_def)

lemma ex_values: "map score_value scores_7_8_8 = [7, 8, 8]"
  by (simp add: score_value_def score_digits_def digits_value_def scores_7_8_8_def match_score_def starts_with_def is_digit_def)

lemma ex_short: "\<not> (\<exists>r\<in>set scores_7_8_8. too_long 4300 r)"
  by (simp add: too_long_def score_digits_def scores_7_8_8_def
      match_score_def starts_with_def is_digit_def)

lemma ex_avg: "avg_score_text 23 3 = Inr ''7.7''"
  by (simp add: avg_score_text_def truediv_def format_1f_def round_half_even_def
      bit_length.simps str_nat.simps digit_char_def)

section \<open>Properties of the session\<close>

text \<open>
  C1. In every session that a sequence of runs reaches from startup, the question index
  equals the number of responses recorded. While the interview is in progress, a skip
  and a submit of a non-empty answer each append exactly one response and raise the
  index by exactly one, so that the two are equal again.
\<close>

theorem index_equals_record_count:
  assumes "runs None evs = Some s"
  shows "current_question_idx s = length (all_responses s) \<and>
         (phase (Some s) = InProgress \<and> advance (pressed, i) \<longrightarrow>
            (\<exists>s' r. fst (interview_page pressed i (Some s)) = Some s' \<and>
                    all_responses s' = all_responses s @ [r] \<and>
                    current_question_idx s' = current_question_idx s + 1 \<and>
                    current_question_idx s' = length (all_responses s')))"
proof -
  have eq: "current_question_idx s = length (all_responses s)"
    using reachable_wf [OF assms] by (simp add: wf_def)
  have "\<exists>s' r. fst (interview_page pressed i (Some s)) = Some s' \<and>
                    all_responses s' = all_responses s @ [r] \<and>
                    current_question_idx s' = current_question_idx s + 1 \<and>
                    current_question_idx s' = length (all_responses s')"
    if "phase (Some s) = InProgress" "advance (pressed, i)"
  proof -
    from that obtain r where
      "fst (interview_page pressed i (Some s)) =
         Some (s\<lparr>all_responses := all_responses s @ [r],
                  current_question_idx := current_question_idx s + 1,
                  current_user_answer := []\<rparr>)"
      using page_advance [of s pressed i] by (auto simp: phase_InProgress)
    with eq show ?thesis by simp
  qed
  with eq show ?thesis by blast
qed

theorem index_equals_record_count_witness:
  "runs None [(StartInterview, scenario_start), (SubmitAnswer, scenario_answer)] =
     Some scenario_answered \<and>
   phase (Some scenario_answered) = InProgress \<and>
   advance (SkipQuestion, scenario_start) \<and>
   current_question_idx scenario_answered = length (all_responses scenario_answered) \<and>
   (\<exists>s' r. fst (interview_page SkipQuestion scenario_start (Some scenario_answered)) = Some s' \<and>
           all_responses s' = all_responses scenario_answered @ [r] \<and>
           current_question_idx s' = current_question_idx scenario_answered + 1 \<and>
           current_question_idx s' = length (all_responses s'))"
proof -
  have a: "advance (SkipQuestion, scenario_start)"
    by (simp add: advance_def)
  from index_equals_record_count [OF scenario_first_answer, of SkipQuestion scenario_start]
    scenario_answered_phase a
  show ?thesis using scenario_first_answer by blast
qed

text \<open>
  C3, as amended. When the start button is pressed on the Setup screen and generation
  fails (the reply is blocked, the call raises, or the returned list is empty or starts
  with a failure sentinel), the phase stays Setup and the error message is shown after
  the messages of the generation itself, without a rerun. The session is the one a run
  without a press leaves, except that its \<open>questions\<close> hold the returned list: the
  copies of the sentinel, or nothing.
\<close>

theorem failed_generation_keeps_setup:
  assumes "phase state = Setup"
    and "model_reply i = Blocked \<or> model_reply i = Raised e \<or>
         generation_failed (fst (generate_llm_questions_gemini (w_job_role i)
           (w_interview_type i) (w_num_questions i) (w_domain i) (model_reply i)))"
  shows "phase (fst (interview_page StartInterview i state)) = Setup \<and>
         fst (interview_page StartInterview i state) =
           map_option
             (\<lambda>s. s\<lparr>questions := fst (generate_llm_questions_gemini (w_job_role i)
                (w_interview_type i) (w_num_questions i) (w_domain i) (model_reply i))\<rparr>)
             (fst (interview_page NoButton i state)) \<and>
         snd (interview_page StartInterview i state) =
           snd (generate_llm_questions_gemini (w_job_role i)
                (w_interview_type i) (w_num_questions i) (w_domain i) (model_reply i)) @
           [Error ''Failed to generate questions. Please check your API key and try again.'']"
proof -
  let ?g = "generate_llm_questions_gemini (w_job_role i)
           (w_interview_type i) (w_num_questions i) (w_domain i) (model_reply i)"
  have failed: "generation_failed (fst ?g)"
    using assms(2) generation_failed_reply [of i e] by blast
  obtain s1 where s1: "fst (interview_page NoButton i state) = Some s1" "\<not> interview_started s1"
    using page_render_setup [OF assms(1)] by blast
  obtain qs es where g: "?g = (qs, es)" by (cases ?g)
  show ?thesis
    using failed s1 unfolding page_start [OF assms(1)] g
    by (simp add: phase_Setup)
qed

theorem failed_generation_keeps_setup_witness:
  "phase None = Setup \<and> model_reply scenario_blocked = Blocked \<and>
   phase (fst (interview_page StartInterview scenario_blocked None)) = Setup \<and>
   fst (interview_page StartInterview scenario_blocked None) =
     map_option
       (\<lambda>s. s\<lparr>questions := fst (generate_llm_questions_gemini (w_job_role scenario_blocked)
          (w_interview_type scenario_blocked) (w_num_questions scenario_blocked)
          (w_domain scenario_blocked) (model_reply scenario_blocked))\<rparr>)
       (fst (interview_page NoButton scenario_blocked None)) \<and>
   snd (interview_page StartInterview scenario_blocked None) =
     snd (generate_llm_questions_gemini (w_job_role scenario_blocked)
          (w_interview_type scenario_blocked) (w_num_questions scenario_blocked)
          (w_domain scenario_blocked) (model_reply scenario_blocked)) @
     [Error ''Failed to generate questions. Please check your API key and try again.'']"
proof -
  have p: "phase None = Setup" by (simp add: phase_def)
  have b: "model_reply scenario_blocked = Blocked" by (simp add: scenario_blocked_def)
  from failed_generation_keeps_setup [OF p disjI1 [OF b]] p b
  show ?thesis by blast
qed

text \<open>
  The claim as stated fails: after a blocked start with three questions asked for, the
  session holds three copies of the sentinel as its questions.
\<close>

theorem failed_generation_stores_sentinels:
  "model_reply scenario_blocked = Blocked \<and>
   map_option questions (fst (interview_page StartInterview scenario_blocked None)) =
     Some [blocked_questions, blocked_questions, blocked_questions] \<and>
   map_option questions (fst (interview_page StartInterview scenario_blocked None)) \<noteq> Some []"
  by code_simp




text \<open>
  C5. While the interview is in progress, a submit of an empty answer leaves the whole
  session as it was; the run calls no model and shows the warning, and nothing else.
\<close>

theorem empty_answer_rejected:
  assumes "phase (Some s) = InProgress" and "w_user_answer i = []"
  shows "interview_page SubmitAnswer i (Some s) =
           (Some s, [Warning ''Please provide an answer before submitting.''])"
  using assms by (simp add: phase_InProgress page_submit_empty)

theorem empty_answer_rejected_witness:
  "phase (Some scenario_answered) = InProgress \<and> w_user_answer scenario_start = [] \<and>
   interview_page SubmitAnswer scenario_start (Some scenario_answered) =
     (Some scenario_answered, [Warning ''Please provide an answer before submitting.''])"
proof -
  have e: "w_user_answer scenario_start = []"
    by (simp add: scenario_start_def)
  from empty_answer_rejected [OF scenario_answered_phase e] scenario_answered_phase e
  show ?thesis by simp
qed



text \<open>
  C7. In a session reached from startup, a report is only there when the interview has
  started and the index equals the number of questions. Once it is there, the report
  button is not on the screen, and a run changes nothing and calls no model, whatever
  was pressed, unless it is the reset. And a run that sets the report starts from a
  session without one, in the phase Summary, by the report button.
\<close>

theorem final_report_set_once:
  assumes "runs None evs = Some s"
  shows "(final_report s \<noteq> None \<longrightarrow>
            interview_started s \<and> current_question_idx s = length (questions s) \<and>
            GenerateFinalReport \<notin> set (offered (Some s)) \<and>
            interview_page pressed i (Some s) =
              (if pressed = StartNewInterview then (None, [Rerun]) else (Some s, []))) \<and>
         (final_report s = None \<longrightarrow>
            (\<forall>s'. fst (interview_page pressed i (Some s)) = Some s' \<and> final_report s' \<noteq> None \<longrightarrow>
                  pressed = GenerateFinalReport \<and> phase (Some s) = Summary \<and>
                  current_question_idx s = length (questions s)))"
proof -
  have w: "wf s" by (rule reachable_wf [OF assms])
  have "interview_started s \<and> current_question_idx s = length (questions s) \<and>
            GenerateFinalReport \<notin> set (offered (Some s)) \<and>
            interview_page pressed i (Some s) =
              (if pressed = StartNewInterview then (None, [Rerun]) else (Some s, []))"
    if r: "final_report s \<noteq> None"
  proof -
    from w r have st: "interview_started s" and idx: "current_question_idx s = length (questions s)"
      by (auto simp: wf_def)
    from st idx r have "phase (Some s) = Reported" by (simp add: phase_def)
    then have "GenerateFinalReport \<notin> set (offered (Some s))" by (simp add: offered_def)
    with st idx r page_reported [of s pressed i] show ?thesis by simp
  qed
  with page_sets_report [OF w] show ?thesis by blast
qed

theorem final_report_set_once_witness:
  "runs None [(StartInterview, scenario_start), (SubmitAnswer, scenario_answer),
     (SubmitAnswer, scenario_answer), (SkipQuestion, scenario_start),
     (GenerateFinalReport, scenario_report)] = Some scenario_reported \<and>
   final_report scenario_reported = Some ''Report'' \<and>
   current_question_idx scenario_reported = length (questions scenario_reported) \<and>
   GenerateFinalReport \<notin> set (offered (Some scenario_reported)) \<and>
   interview_page GenerateFinalReport scenario_answer (Some scenario_reported) =
     (Some scenario_reported, []) \<and>
   runs None [(StartInterview, scenario_start), (SubmitAnswer, scenario_answer),
     (SubmitAnswer, scenario_answer), (SkipQuestion, scenario_start)] = Some scenario_completed \<and>
   final_report scenario_completed = None \<and>
   fst (interview_page GenerateFinalReport scenario_report (Some scenario_completed)) =
     Some scenario_reported \<and>
   phase (Some scenario_completed) = Summary \<and>
   current_question_idx scenario_completed = length (questions scenario_completed)"
proof -
  have r: "final_report scenario_reported = Some ''Report''"
    by (simp add: scenario_reported_def)
  have n: "final_report scenario_completed = None"
    by (simp add: scenario_completed_def scenario_session_def)
  note g = scenario_report_step
  from final_report_set_once [OF scenario_report_made, of GenerateFinalReport scenario_answer]
    final_report_set_once [OF scenario_all_answered, of GenerateFinalReport scenario_report]
    r n g scenario_report_made scenario_all_answered
  show ?thesis by simp
qed

text \<open>
  C8. While the interview is in progress the skip button is on the screen; a press
  appends the response with the answer \<open>Skipped\<close> and the feedback \<open>No feedback.\<close>,
  raises the index by one and reruns, without a call of the model. After a start with
  three questions, two submitted answers and one skip give three responses, the third
  with the answer \<open>Skipped\<close>, and the phase Summary.
\<close>

theorem skip_records_sentinel:
  "(phase (Some s) = InProgress \<longrightarrow>
      SkipQuestion \<in> set (offered (Some s)) \<and>
      interview_page SkipQuestion i (Some s) =
        (Some (s\<lparr>all_responses := all_responses s @
                   [\<lparr>question = questions s ! current_question_idx s,
                     answer = ''Skipped'', feedback = ''No feedback.''\<rparr>],
                 current_question_idx := current_question_idx s + 1,
                 current_user_answer := []\<rparr>),
         [Rerun])) \<and>
   (phase state = Setup \<and> fst (interview_page StartInterview i0 state) = Some s0 \<and>
    interview_started s0 \<and> length (questions s0) = 3 \<and>
    w_user_answer i1 \<noteq> [] \<and> w_user_answer i2 \<noteq> [] \<longrightarrow>
      (\<exists>s'. runs (Some s0) [(SubmitAnswer, i1), (SubmitAnswer, i2), (SkipQuestion, i3)] = Some s' \<and>
            length (all_responses s') = 3 \<and>
            answer (all_responses s' ! 2) = ''Skipped'' \<and>
            feedback (all_responses s' ! 2) = ''No feedback.'' \<and>
            phase (Some s') = Summary))"
proof -
  have skip: "SkipQuestion \<in> set (offered (Some s)) \<and>
      interview_page SkipQuestion i (Some s) =
        (Some (s\<lparr>all_responses := all_responses s @
                   [\<lparr>question = questions s ! current_question_idx s,
                     answer = ''Skipped'', feedback = ''No feedback.''\<rparr>],
                 current_question_idx := current_question_idx s + 1,
                 current_user_answer := []\<rparr>),
         [Rerun])"
    if "phase (Some s) = InProgress"
  proof -
    from that have "SkipQuestion \<in> set (offered (Some s))" by (simp add: offered_def)
    moreover from that have "interview_started s" "current_question_idx s < length (questions s)"
      by (simp_all add: phase_InProgress)
    ultimately show ?thesis using page_skip [of s i] by simp
  qed
  have scenario: "\<exists>s'. runs (Some s0) [(SubmitAnswer, i1), (SubmitAnswer, i2), (SkipQuestion, i3)] = Some s' \<and>
            length (all_responses s') = 3 \<and>
            answer (all_responses s' ! 2) = ''Skipped'' \<and>
            feedback (all_responses s' ! 2) = ''No feedback.'' \<and>
            phase (Some s') = Summary"
    if pre: "phase state = Setup"
      and start: "fst (interview_page StartInterview i0 state) = Some s0" "interview_started s0"
      and three: "length (questions s0) = 3"
      and a1: "w_user_answer i1 \<noteq> []" and a2: "w_user_answer i2 \<noteq> []"
  proof -
    from page_started [OF pre start]
    have idx: "current_question_idx s0 = 0" and rs: "all_responses s0 = []"
      and rep: "final_report s0 = None"
      by simp_all
    obtain fb1 es1 where e1: "evaluate_llm_answer_gemini (job_role s0) (interview_type s0)
        (questions s0 ! 0) (w_user_answer i1) (domain s0) (model_reply i1) = (fb1, es1)"
      by (cases "evaluate_llm_answer_gemini (job_role s0) (interview_type s0)
        (questions s0 ! 0) (w_user_answer i1) (domain s0) (model_reply i1)")
    define s1 where "s1 = s0\<lparr>all_responses := [\<lparr>question = questions s0 ! 0,
        answer = w_user_answer i1, feedback = fb1\<rparr>],
      current_question_idx := 1, current_user_answer := []\<rparr>"
    have r1: "fst (interview_page SubmitAnswer i1 (Some s0)) = Some s1"
      using page_submit [OF start(2) _ a1] idx three rs e1 by (simp add: s1_def)
    obtain fb2 es2 where e2: "evaluate_llm_answer_gemini (job_role s1) (interview_type s1)
        (questions s1 ! 1) (w_user_answer i2) (domain s1) (model_reply i2) = (fb2, es2)"
      by (cases "evaluate_llm_answer_gemini (job_role s1) (interview_type s1)
        (questions s1 ! 1) (w_user_answer i2) (domain s1) (model_reply i2)")
    define s2 where "s2 = s1\<lparr>all_responses := all_responses s1 @ [\<lparr>question = questions s1 ! 1,
        answer = w_user_answer i2, feedback = fb2\<rparr>],
      current_question_idx := 2, current_user_answer := []\<rparr>"
    have p1: "interview_started s1" "current_question_idx s1 = 1" "length (questions s1) = 3"
      using start(2) three by (simp_all add: s1_def)
    have r2: "fst (interview_page SubmitAnswer i2 (Some s1)) = Some s2"
      using page_submit [OF p1(1) _ a2] p1 e2 by (simp add: s2_def)
    have p2: "interview_started s2" "current_question_idx s2 = 2" "length (questions s2) = 3"
      "length (all_responses s2) = 2" "final_report s2 = None"
      using p1 rep by (simp_all add: s2_def s1_def)
    define s3 where "s3 = s2\<lparr>all_responses := all_responses s2 @
        [\<lparr>question = questions s2 ! 2, answer = ''Skipped'', feedback = ''No feedback.''\<rparr>],
      current_question_idx := 3, current_user_answer := []\<rparr>"
    have r3: "fst (interview_page SkipQuestion i3 (Some s2)) = Some s3"
      using page_skip [OF p2(1), of i3] p2 by (simp add: s3_def)
    have "runs (Some s0) [(SubmitAnswer, i1), (SubmitAnswer, i2), (SkipQuestion, i3)] = Some s3"
      by (simp add: r1 r2 r3)
    moreover have "length (all_responses s3) = 3" "answer (all_responses s3 ! 2) = ''Skipped''"
      "feedback (all_responses s3 ! 2) = ''No feedback.''" "phase (Some s3) = Summary"
      using p2 by (simp_all add: s3_def nth_append phase_def)
    ultimately show ?thesis by blast
  qed
  from skip scenario show ?thesis by blast
qed

theorem skip_records_sentinel_witness:
  "phase (Some scenario_answered) = InProgress \<and>
   SkipQuestion \<in> set (offered (Some scenario_answered)) \<and>
   interview_page SkipQuestion scenario_start (Some scenario_answered) =
     (Some (scenario_answered\<lparr>all_responses := all_responses scenario_answered @
                   [\<lparr>question = questions scenario_answered ! current_question_idx scenario_answered,
                     answer = ''Skipped'', feedback = ''No feedback.''\<rparr>],
                 current_question_idx := current_question_idx scenario_answered + 1,
                 current_user_answer := []\<rparr>),
      [Rerun]) \<and>
   phase None = Setup \<and>
   fst (interview_page StartInterview scenario_start None) = Some scenario_session \<and>
   interview_started scenario_session \<and> length (questions scenario_session) = 3 \<and>
   w_user_answer scenario_answer \<noteq> [] \<and>
   (\<exists>s'. runs (Some scenario_session)
           [(SubmitAnswer, scenario_answer), (SubmitAnswer, scenario_answer),
            (SkipQuestion, scenario_start)] = Some s' \<and>
         length (all_responses s') = 3 \<and>
         answer (all_responses s' ! 2) = ''Skipped'' \<and>
         feedback (all_responses s' ! 2) = ''No feedback.'' \<and>
         phase (Some s') = Summary)"
proof -
  have p: "phase None = Setup" by (simp add: phase_def)
  have st: "interview_started scenario_session" and q: "length (questions scenario_session) = 3"
    by (simp_all add: scenario_session_def)
  have a: "w_user_answer scenario_answer \<noteq> []"
    by (simp add: scenario_answer_def)
  from skip_records_sentinel [of scenario_answered scenario_start None scenario_start
      scenario_session scenario_answer scenario_answer scenario_start]
    scenario_answered_phase p scenario_started st q a
  show ?thesis by blast
qed

text \<open>
  C10. In every session reached from startup the number of responses, and with it the
  question index, is at most the number of questions; and where Submit or Skip is on
  the screen the index is below it.
\<close>

theorem records_within_questions:
  assumes "runs None evs = Some s"
  shows "length (all_responses s) \<le> length (questions s) \<and>
         current_question_idx s \<le> length (questions s) \<and>
         (SubmitAnswer \<in> set (offered (Some s)) \<or> SkipQuestion \<in> set (offered (Some s)) \<longrightarrow>
            current_question_idx s < length (questions s))"
proof -
  have "wf s" by (rule reachable_wf [OF assms])
  then have "length (all_responses s) \<le> length (questions s)"
    and "current_question_idx s \<le> length (questions s)"
    by (simp_all add: wf_def)
  moreover have "current_question_idx s < length (questions s)"
    if "SubmitAnswer \<in> set (offered (Some s)) \<or> SkipQuestion \<in> set (offered (Some s))"
    using that by (auto simp: offered_def phase_def split: if_splits)
  ultimately show ?thesis by blast
qed

theorem records_within_questions_witness:
  "runs None [(StartInterview, scenario_start), (SubmitAnswer, scenario_answer)] =
     Some scenario_answered \<and>
   length (all_responses scenario_answered) \<le> length (questions scenario_answered) \<and>
   current_question_idx scenario_answered \<le> length (questions scenario_answered) \<and>
   SkipQuestion \<in> set (offered (Some scenario_answered)) \<and>
   current_question_idx scenario_answered < length (questions scenario_answered)"
proof -
  have o: "SkipQuestion \<in> set (offered (Some scenario_answered))"
    by (simp add: offered_def scenario_answered_phase)
  from records_within_questions [OF scenario_first_answer] o
  show ?thesis using scenario_first_answer by blast
qed

section \<open>Properties of the gateway\<close>

text \<open>
  C2, as amended. The report prompt carries the average of the scores: the sum of the
  integers of the first match of \<open>Score: <integer>/10\<close> in each feedback, divided by
  the number of responses with a match, as the nearest float, shown with one decimal
  place by rounding to the nearest, ties to even. Responses without a match count on
  neither side, and without any match the average is 0.0. No prompt is built when a
  matched integer has more digits than the interpreter converts (\<open>ValueError\<close>) or
  the quotient is beyond the floats (\<open>OverflowError\<close>).
\<close>

theorem average_score_in_prompt:
  "report_prompt lim jr it rs =
     (if \<exists>r\<in>set (scored rs). too_long lim r then Inl ValueError
      else if scored rs = [] then Inr (prompt_text jr it rs ''0.0'')
      else
        (case truediv (sum_list (map score_value (scored rs))) (length (scored rs)) of
           Inl err \<Rightarrow> Inl err
         | Inr x \<Rightarrow> Inr (prompt_text jr it rs (format_1f x))))"
  unfolding report_prompt_closed avg_score_text_closed
  by (simp split: sum.splits)

theorem average_score_in_prompt_witness:
  "report_prompt 4300 ''Backend Engineer'' ''Technical Interview'' score_7 =
     Inr (prompt_text ''Backend Engineer'' ''Technical Interview'' score_7 ''7.0'') \<and>
   report_prompt 4300 ''Backend Engineer'' ''Technical Interview'' [] =
     Inr (prompt_text ''Backend Engineer'' ''Technical Interview'' [] ''0.0'')"
proof -
  have "score_7 \<noteq> []" and "length score_7 = 1" by (simp_all add: score_7_def)
  then show ?thesis
    using average_score_in_prompt [of 4300 "''Backend Engineer''" "''Technical Interview''" score_7]
      average_score_in_prompt [of 4300 "''Backend Engineer''" "''Technical Interview''" "[]"]
      score_7_short
    by (simp add: score_7_scored score_7_values truediv_7_1 format_7) (simp add: scored_def)
qed

text \<open>
  The claim as stated fails: the scores 7, 8 and 8 have the average 7.666..., which the
  prompt shows as 7.7, and truncation would show as 7.6.
\<close>

theorem average_rounded_not_truncated:
  "report_prompt 4300 ''Backend Engineer'' ''Technical Interview'' scores_7_8_8 =
     Inr (prompt_text ''Backend Engineer'' ''Technical Interview'' scores_7_8_8 ''7.7'') \<and>
   spec_truncated_average scores_7_8_8 = ''7.6''"
proof -
  have ne: "scores_7_8_8 \<noteq> []" by (simp add: scores_7_8_8_def)
  have len: "length scores_7_8_8 = 3" by (simp add: scores_7_8_8_def)
  have "report_prompt 4300 ''Backend Engineer'' ''Technical Interview'' scores_7_8_8 =
     Inr (prompt_text ''Backend Engineer'' ''Technical Interview'' scores_7_8_8 ''7.7'')"
    unfolding report_prompt_closed using ex_short
    by (simp add: ex_scored ex_values len ex_avg)
  moreover have "spec_truncated_average scores_7_8_8 = ''7.6''"
    using ne by (simp add: spec_truncated_average_def ex_scored ex_values len str_nat.simps digit_char_def)
  ultimately show ?thesis by simp
qed

text \<open>
  C9, as amended. For a count that is not negative, the questions generated from a
  reply are its lines that are not blank, each without its leading and trailing
  whitespace, in their order, truncated to the count; none of them is empty. A blocked
  reply gives count copies of one sentinel and a failed call count copies of another,
  both starting with \<open>Could not generate\<close>.
\<close>

theorem generated_questions:
  assumes "0 \<le> n"
  shows "fst (generate_llm_questions_gemini jr it n d (Text t)) = take (nat n) (stripped_lines t) \<and>
         [] \<notin> set (stripped_lines t) \<and>
         fst (generate_llm_questions_gemini jr it n d Blocked) = replicate (nat n) blocked_questions \<and>
         fst (generate_llm_questions_gemini jr it n d (Raised e)) = replicate (nat n) failed_questions \<and>
         starts_with blocked_questions ''Could not generate'' \<and>
         starts_with failed_questions ''Could not generate''"
proof -
  have "fst (generate_llm_questions_gemini jr it n d (Text t)) = take (nat n) (stripped_lines (strip t))"
    using assms by (simp add: generate_llm_questions_gemini_def Let_def slice_to_def stripped_lines_def)
  then have "fst (generate_llm_questions_gemini jr it n d (Text t)) = take (nat n) (stripped_lines t)"
    by (simp only: stripped_lines_strip)
  moreover have "[] \<notin> set (stripped_lines t)"
    by (auto simp: stripped_lines_def)
  moreover have "fst (generate_llm_questions_gemini jr it n d Blocked) = replicate (nat n) blocked_questions"
    "fst (generate_llm_questions_gemini jr it n d (Raised e)) = replicate (nat n) failed_questions"
    by (simp_all add: generate_llm_questions_gemini_def list_times_def)
  moreover have "starts_with blocked_questions ''Could not generate''"
    "starts_with failed_questions ''Could not generate''"
    by (simp_all add: starts_with_def blocked_questions_def failed_questions_def)
  ultimately show ?thesis by blast
qed

theorem generated_questions_witness:
  "(0::int) \<le> 3 \<and>
   fst (generate_llm_questions_gemini ''Backend Engineer'' ''Technical Interview'' 3 []
     (Text padded_reply)) = [''Q1'', ''Q2''] \<and>
   fst (generate_llm_questions_gemini ''Backend Engineer'' ''Technical Interview'' 3 [] Blocked) =
     [blocked_questions, blocked_questions, blocked_questions] \<and>
   fst (generate_llm_questions_gemini ''Backend Engineer'' ''Technical Interview'' 3 []
     (Raised ''timeout'')) = [failed_questions, failed_questions, failed_questions]"
proof -
  have n: "(0::int) \<le> 3" by simp
  have three: "replicate 3 x = [x, x, x]" for x :: string
    by (simp add: numeral_3_eq_3)
  from generated_questions [OF n, of "''Backend Engineer''" "''Technical Interview''" "[]"
      padded_reply "''timeout''"]
  show ?thesis by (simp add: padded_lines three)
qed

text \<open>
  The claim as stated fails: of a reply with blanks around its lines and a blank line
  the code returns the two stripped lines, not the three non-empty lines as they are.
\<close>

theorem generated_lines_are_stripped:
  "fst (generate_llm_questions_gemini ''Backend Engineer'' ''Technical Interview'' 3 []
     (Text padded_reply)) = [''Q1'', ''Q2''] \<and>
   spec_generateQuestions padded_reply 3 = ['' Q1 '', '' '', ''Q2'']"
  by (simp add: generate_llm_questions_gemini_def Let_def slice_to_def spec_generateQuestions_def
      padded_reply_def newline_def strip_def is_space_def)

end
